theory Spec2Isabelle
  imports Complex_Main "HOL-Library.AList"
begin

section \<open>Values shared by the gateway and the file logger\<close>

text \<open>
  Python values that end up in a dictionary or in a JSON file. A dictionary keeps the
  insertion order of its keys, so it is an association list with distinct keys. A Python
  \<open>float\<close> is only ever carried around (no arithmetic is done on it), so it is a
  \<open>real\<close>. A \<open>string\<close> is a list of characters, one \<open>char\<close> per code point.
\<close>

datatype jval =
    JNull
  | JBool bool
  | JInt int
  | JFloat real
  | JStr string
  | JList "jval list"
  | JObj "(string \<times> jval) list"

type_synonym pydict = "(string \<times> jval) list"

text \<open>The exceptions that can cross a method boundary.\<close>

datatype exn =
    TwilioRestException string
  | RequestException string
  | AttributeError string
  | UnicodeDecodeError string
  | ValueError string

text \<open>\<open>str(e)\<close> of an exception: the text it carries.\<close>

fun str_exn :: "exn \<Rightarrow> string" where
  "str_exn (TwilioRestException s) = s"
| "str_exn (RequestException s) = s"
| "str_exn (AttributeError s) = s"
| "str_exn (UnicodeDecodeError s) = s"
| "str_exn (ValueError s) = s"

text \<open>Truthiness of an optional string (\<open>if x:\<close>): \<open>None\<close> and \<open>''\<close> are false.\<close>

fun truthy :: "string option \<Rightarrow> bool" where
  "truthy None = False"
| "truthy (Some s) = (s \<noteq> [])"

text \<open>An optional string as a dictionary value.\<close>

fun jopt :: "string option \<Rightarrow> jval" where
  "jopt None = JNull"
| "jopt (Some s) = JStr s"

section \<open>The file logger (file\_logger.py)\<close>

text \<open>
  What the logger reads from its surroundings: \<open>datetime.now().isoformat()\<close>,
  \<open>datetime.now().strftime('%Y-%m-%d')\<close>, and the rendering \<open>f"{price:.2f}"\<close> of a float.
\<close>

record env =
  now_isoformat :: string
  now_ymd :: string
  fmt_2f :: "real \<Rightarrow> string"

text \<open>
  The content of a file as \<open>json.load\<close> on a file opened with \<open>open(log_file, 'r')\<close> sees
  it: bytes that are not text in the encoding of the file object, so that reading raises
  \<open>UnicodeDecodeError\<close>; text on which \<open>json.load\<close> raises \<open>JSONDecodeError\<close>; or the
  value it returns.
\<close>

datatype file_content = NotText | Garbage | Json jval

datatype level = INFO | ERROR

text \<open>
  The logger object (\<open>enabled\<close>, \<open>log_path\<close>) together with what it writes to: the files of
  the log directory by path, and the lines of \<open>app.log\<close> in order.
\<close>

record file_logger =
  enabled :: bool
  log_path :: string
  files :: "string \<rightharpoonup> file_content"
  app_log :: "(level \<times> string) list"

text \<open>\<open>os.path.join\<close> of two components (posix).\<close>

definition path_join :: "string \<Rightarrow> string \<Rightarrow> string" where
  "path_join a b =
     (if b \<noteq> [] \<and> hd b = CHR ''/'' then b
      else if a = [] \<or> last a = CHR ''/'' then a @ b
      else a @ ''/'' @ b)"

definition get_log_file_path :: "env \<Rightarrow> file_logger \<Rightarrow> string \<Rightarrow> string" where
  "get_log_file_path ev lg log_type =
     path_join (log_path lg) (log_type @ ''_'' @ now_ymd ev @ ''.json'')"

text \<open>
  \<open>_write_json_log\<close>. A missing file and a file on which \<open>json.load\<close> raises
  \<open>JSONDecodeError\<close> both give the empty list; no other exception of the read is caught;
  \<open>logs.append\<close> exists only when the decoded value is a list.
\<close>

definition read_logs :: "file_content option \<Rightarrow> exn + jval list" where
  "read_logs fc =
     (case fc of
        None \<Rightarrow> Inr []
      | Some NotText \<Rightarrow> Inl (UnicodeDecodeError ''invalid start byte'')
      | Some Garbage \<Rightarrow> Inr []
      | Some (Json (JList xs)) \<Rightarrow> Inr xs
      | Some (Json _) \<Rightarrow> Inl (AttributeError ''append''))"

definition write_json_log ::
  "env \<Rightarrow> file_logger \<Rightarrow> string \<Rightarrow> pydict \<Rightarrow> (exn + unit) \<times> file_logger" where
  "write_json_log ev lg log_type data =
     (if \<not> enabled lg then (Inr (), lg)
      else
        let data' = AList.update ''timestamp'' (JStr (now_isoformat ev)) data;
            log_file = get_log_file_path ev lg log_type
        in case read_logs (files lg log_file) of
             Inl e \<Rightarrow> (Inl e, lg)
           | Inr logs \<Rightarrow>
               (Inr (), lg\<lparr>files := (files lg)(log_file \<mapsto> Json (JList (logs @ [JObj data'])))\<rparr>))"

text \<open>The line sent to the standard logger, when the logger is enabled.\<close>

definition emit :: "file_logger \<Rightarrow> level \<Rightarrow> string \<Rightarrow> file_logger" where
  "emit lg lv msg = lg\<lparr>app_log := app_log lg @ [(lv, msg)]\<rparr>"

text \<open>
  The tail shared by \<open>log_call\<close>, \<open>log_message\<close> and \<open>log_purchase\<close>: nothing when the
  logger is disabled, an error line when \<open>error\<close> is a non-empty string, an info line
  otherwise.
\<close>

definition emit_status :: "file_logger \<Rightarrow> string \<Rightarrow> string option \<Rightarrow> file_logger" where
  "emit_status lg log_msg error =
     (if \<not> enabled lg then lg
      else case error of
             None \<Rightarrow> emit lg INFO log_msg
           | Some e \<Rightarrow> if e \<noteq> [] then emit lg ERROR (log_msg @ '' - Error: '' @ e)
                       else emit lg INFO log_msg)"

definition log_call ::
  "env \<Rightarrow> file_logger \<Rightarrow> string \<Rightarrow> string \<Rightarrow> string \<Rightarrow> string option \<Rightarrow> int option \<Rightarrow>
   string option \<Rightarrow> (exn + unit) \<times> file_logger" where
  "log_call ev lg from_number to_number status sid duration error =
     (let data = [(''from'', JStr from_number), (''to'', JStr to_number),
                  (''status'', JStr status), (''sid'', jopt sid),
                  (''duration'', (case duration of None \<Rightarrow> JNull | Some d \<Rightarrow> JInt d)),
                  (''error'', jopt error)]
      in case write_json_log ev lg ''call'' data of
           (Inl e, lg1) \<Rightarrow> (Inl e, lg1)
         | (Inr _, lg1) \<Rightarrow>
             (Inr (), emit_status lg1
                (''Call from '' @ from_number @ '' to '' @ to_number @ '': '' @ status) error))"

definition log_message ::
  "env \<Rightarrow> file_logger \<Rightarrow> string \<Rightarrow> string \<Rightarrow> string \<Rightarrow> string option \<Rightarrow> string option \<Rightarrow>
   string option \<Rightarrow> (exn + unit) \<times> file_logger" where
  "log_message ev lg from_number to_number status body sid error =
     (let body1 = (case body of
                     None \<Rightarrow> None
                   | Some b \<Rightarrow> if b \<noteq> [] \<and> length b > 100 then Some (take 97 b @ ''...'')
                               else Some b);
          data = [(''from'', JStr from_number), (''to'', JStr to_number),
                  (''status'', JStr status), (''body'', jopt body1), (''sid'', jopt sid),
                  (''error'', jopt error)]
      in case write_json_log ev lg ''message'' data of
           (Inl e, lg1) \<Rightarrow> (Inl e, lg1)
         | (Inr _, lg1) \<Rightarrow>
             (Inr (), emit_status lg1
                (''Message from '' @ from_number @ '' to '' @ to_number @ '': '' @ status) error))"


definition log_error ::
  "env \<Rightarrow> file_logger \<Rightarrow> string \<Rightarrow> string \<Rightarrow> pydict option \<Rightarrow> (exn + unit) \<times> file_logger" where
  "log_error ev lg error_type message details =
     (let data = [(''type'', JStr error_type), (''message'', JStr message),
                  (''details'', JObj (case details of None \<Rightarrow> [] | Some d \<Rightarrow> d))]
      in case write_json_log ev lg ''error'' data of
           (Inl e, lg1) \<Rightarrow> (Inl e, lg1)
         | (Inr _, lg1) \<Rightarrow>
             (Inr (), if enabled lg1 then emit lg1 ERROR (error_type @ '': '' @ message) else lg1))"

section \<open>The provider, as the gateway sees it\<close>

text \<open>
  The objects the client library hands back. A field that the gateway passes to the logger
  or puts into a message is a string; \<open>date_created\<close> holds \<open>str(date_created)\<close>; every
  other field is passed through as it is.
\<close>

record available_number =
  an_phone_number :: jval
  an_friendly_name :: jval
  an_locality :: jval
  an_region :: jval
  an_postal_code :: jval
  an_iso_country :: jval
  an_capabilities :: pydict

record incoming_number =
  inc_sid :: string
  inc_phone_number :: string
  inc_friendly_name :: jval
  inc_date_created :: string
  inc_capabilities :: jval
  inc_voice_url :: jval
  inc_sms_url :: jval
  inc_voice_method :: jval
  inc_sms_method :: jval

record call_resource =
  call_sid :: string
  call_status :: string
  call_direction :: jval
  call_date_created :: string
  call_from :: jval
  call_to :: jval
  call_duration :: jval
  call_price :: jval

record message_resource =
  msg_sid :: string
  msg_status :: string
  msg_direction :: jval
  msg_date_created :: string
  msg_from :: jval
  msg_to :: jval
  msg_body :: jval
  msg_price :: jval

record account_resource =
  acct_sid :: jval
  acct_friendly_name :: jval
  acct_status :: jval
  acct_type :: jval
  acct_date_created :: string
  acct_date_updated :: string

record response =
  status_code :: int
  resp_text :: string
  resp_json :: "exn + jval"

type_synonym kwargs = "(string \<times> string) list"

text \<open>
  The client library and \<open>requests.get\<close>: each call either raises or returns. The arguments
  are those the gateway passes, so that what is sent to the provider can be read off.
\<close>

record client =
  available_local_list :: "string \<Rightarrow> int \<Rightarrow> kwargs \<Rightarrow> exn + available_number list"
  incoming_create :: "kwargs \<Rightarrow> exn + incoming_number"
  incoming_fetch :: "string \<Rightarrow> exn + incoming_number"
  incoming_delete :: "string \<Rightarrow> exn + bool"
  incoming_update :: "string \<Rightarrow> kwargs \<Rightarrow> exn + incoming_number"
  calls_create :: "kwargs \<Rightarrow> exn + call_resource"
  messages_create :: "kwargs \<Rightarrow> exn + message_resource"
  calls_list :: "int \<Rightarrow> exn + call_resource list"
  messages_list :: "int \<Rightarrow> exn + message_resource list"
  accounts_fetch :: "string \<Rightarrow> exn + account_resource"
  requests_get :: "string \<Rightarrow> pydict \<Rightarrow> string \<times> string \<Rightarrow> exn + response"

record twilio_gateway =
  account_sid :: string
  auth_token :: string
  active_sid :: string
  client :: client

section \<open>The gateway (twilio\_gateway.py)\<close>

text \<open>\<open>d.get(k, default)\<close>.\<close>

definition dict_get :: "pydict \<Rightarrow> string \<Rightarrow> jval \<Rightarrow> jval" where
  "dict_get d k dflt = (case map_of d k of None \<Rightarrow> dflt | Some v \<Rightarrow> v)"

text \<open>Returning \<open>v\<close> after a call of the logger, unless the logger raised.\<close>

fun after_log :: "(exn + unit) \<times> file_logger \<Rightarrow> 'a \<Rightarrow> (exn + 'a) \<times> file_logger" where
  "after_log (Inl e, lg) v = (Inl e, lg)"
| "after_log (Inr u, lg) v = (Inr v, lg)"

text \<open>An entry \<open>kwargs[k] = v\<close> made under \<open>if v:\<close>, and one made under \<open>if v is not None:\<close>.\<close>

fun if_truthy :: "string \<Rightarrow> string option \<Rightarrow> kwargs" where
  "if_truthy k None = []"
| "if_truthy k (Some v) = (if v \<noteq> [] then [(k, v)] else [])"


subsection \<open>search\_phone\_numbers\<close>

definition search_params :: "string option \<Rightarrow> string option \<Rightarrow> bool \<Rightarrow> bool \<Rightarrow> kwargs" where
  "search_params area_code contains sms_enabled voice_enabled =
     if_truthy ''AreaCode'' area_code @ if_truthy ''Contains'' contains
     @ (if sms_enabled then [(''SmsEnabled'', ''true'')] else [])
     @ (if voice_enabled then [(''VoiceEnabled'', ''true'')] else [])"

definition number_dict :: "available_number \<Rightarrow> pydict" where
  "number_dict number =
     [(''phone_number'', an_phone_number number),
      (''friendly_name'', an_friendly_name number),
      (''locality'', an_locality number),
      (''region'', an_region number),
      (''postal_code'', an_postal_code number),
      (''iso_country'', an_iso_country number),
      (''capabilities'', JObj
         [(''voice'', dict_get (an_capabilities number) ''voice'' (JBool False)),
          (''sms'', dict_get (an_capabilities number) ''sms'' (JBool False)),
          (''mms'', dict_get (an_capabilities number) ''mms'' (JBool False))])]"

definition search_phone_numbers ::
  "twilio_gateway \<Rightarrow> env \<Rightarrow> file_logger \<Rightarrow> string \<Rightarrow> string option \<Rightarrow> string option \<Rightarrow>
   bool \<Rightarrow> bool \<Rightarrow> int \<Rightarrow> (exn + pydict list \<times> bool) \<times> file_logger" where
  "search_phone_numbers gw ev lg country_code area_code contains sms_enabled voice_enabled limit =
     (let params = search_params area_code contains sms_enabled voice_enabled
      in case available_local_list (client gw) country_code limit params of
           Inr numbers \<Rightarrow>
             (let results = map number_dict numbers;
                  has_more = (int (length numbers) \<ge> limit)
              in (Inr (results, has_more), lg))
         | Inl (TwilioRestException e) \<Rightarrow>
             after_log
               (log_error ev lg ''twilio_search'' (''Error searching for phone numbers: '' @ e) None)
               ([], False)
         | Inl x \<Rightarrow> (Inl x, lg))"

subsection \<open>make\_call\<close>

definition make_call_kwargs ::
  "string \<Rightarrow> string \<Rightarrow> string option \<Rightarrow> string option \<Rightarrow> kwargs" where
  "make_call_kwargs from_number to_number url twiml =
     [(''to'', to_number), (''from_'', from_number)]
     @ (if truthy url then if_truthy ''url'' url else if_truthy ''twiml'' twiml)"

definition make_call ::
  "twilio_gateway \<Rightarrow> env \<Rightarrow> file_logger \<Rightarrow> string \<Rightarrow> string \<Rightarrow> string option \<Rightarrow>
   string option \<Rightarrow> (exn + pydict) \<times> file_logger" where
  "make_call gw ev lg from_number to_number url twiml =
     (case calls_create (client gw) (make_call_kwargs from_number to_number url twiml) of
        Inr call \<Rightarrow>
          after_log
            (log_call ev lg from_number to_number (call_status call) (Some (call_sid call))
               None None)
            [(''success'', JBool True), (''sid'', JStr (call_sid call)),
             (''status'', JStr (call_status call)), (''from'', JStr from_number),
             (''to'', JStr to_number), (''direction'', call_direction call),
             (''date_created'', JStr (call_date_created call))]
      | Inl (TwilioRestException e) \<Rightarrow>
          (let error_msg = ''Error making call: '' @ e
           in after_log
                (log_call ev lg from_number to_number ''failed'' None None (Some error_msg))
                [(''success'', JBool False), (''error'', JStr error_msg),
                 (''from'', JStr from_number), (''to'', JStr to_number)])
      | Inl x \<Rightarrow> (Inl x, lg))"

subsection \<open>search\_phone\_numbers\_raw\<close>






subsection \<open>purchase\_phone\_number\<close>



subsection \<open>release\_phone\_number\<close>



subsection \<open>update\_phone\_number\<close>



subsection \<open>send\_message\<close>

definition send_message ::
  "twilio_gateway \<Rightarrow> env \<Rightarrow> file_logger \<Rightarrow> string \<Rightarrow> string \<Rightarrow> string \<Rightarrow>
   (exn + pydict) \<times> file_logger" where
  "send_message gw ev lg from_number to_number body =
     (case messages_create (client gw)
             [(''to'', to_number), (''from_'', from_number), (''body'', body)] of
        Inr message \<Rightarrow>
          after_log
            (log_message ev lg from_number to_number (msg_status message) (Some body)
               (Some (msg_sid message)) None)
            [(''success'', JBool True), (''sid'', JStr (msg_sid message)),
             (''status'', JStr (msg_status message)), (''from'', JStr from_number),
             (''to'', JStr to_number), (''body'', JStr body),
             (''date_created'', JStr (msg_date_created message))]
      | Inl (TwilioRestException e) \<Rightarrow>
          (let error_msg = ''Error sending message: '' @ e
           in after_log
                (log_message ev lg from_number to_number ''failed'' (Some body) None
                   (Some error_msg))
                [(''success'', JBool False), (''error'', JStr error_msg),
                 (''from'', JStr from_number), (''to'', JStr to_number),
                 (''body'', JStr body)])
      | Inl x \<Rightarrow> (Inl x, lg))"

subsection \<open>get\_call\_logs, get\_message\_logs\<close>





subsection \<open>get\_account\_info\<close>


section \<open>Reading the log directory\<close>

text \<open>
  What an observer finds in the log directory: \<open>json_log\<close> is the list of records in the
  day's file of a category (empty when the file is missing or is not a JSON array),
  \<open>records_total\<close> counts the records over the four categories. \<open>log_ok\<close> says that the day's
  file of a category is missing, text that is not JSON, or a JSON array, which is all the logger itself
  ever leaves behind. \<open>stamped\<close> is a record with its timestamp, \<open>appended\<close> the directory
  after one more record in a category.
\<close>

definition json_log :: "env \<Rightarrow> file_logger \<Rightarrow> string \<Rightarrow> jval list" where
  "json_log ev lg log_type =
     (case read_logs (files lg (get_log_file_path ev lg log_type)) of
        Inl e \<Rightarrow> [] | Inr logs \<Rightarrow> logs)"

definition log_ok :: "env \<Rightarrow> file_logger \<Rightarrow> string \<Rightarrow> bool" where
  "log_ok ev lg log_type =
     (case read_logs (files lg (get_log_file_path ev lg log_type)) of
        Inl e \<Rightarrow> False | Inr logs \<Rightarrow> True)"

definition stamped :: "env \<Rightarrow> pydict \<Rightarrow> jval" where
  "stamped ev data = JObj (AList.update ''timestamp'' (JStr (now_isoformat ev)) data)"

definition appended :: "env \<Rightarrow> file_logger \<Rightarrow> string \<Rightarrow> jval \<Rightarrow> file_logger" where
  "appended ev lg log_type r =
     lg\<lparr>files := (files lg)(get_log_file_path ev lg log_type \<mapsto>
                      Json (JList (json_log ev lg log_type @ [r])))\<rparr>"

definition records_total :: "env \<Rightarrow> file_logger \<Rightarrow> nat" where
  "records_total ev lg =
     length (json_log ev lg ''call'') + length (json_log ev lg ''message'')
     + length (json_log ev lg ''purchase'') + length (json_log ev lg ''error'')"


fun field :: "string \<Rightarrow> jval \<Rightarrow> jval option" where
  "field k (JObj d) = map_of d k"
| "field k v = None"

text \<open>The provider answered: the call returned, or raised \<open>TwilioRestException\<close>.\<close>

fun provider_answer :: "exn + 'a \<Rightarrow> bool" where
  "provider_answer (Inr v) = True"
| "provider_answer (Inl (TwilioRestException e)) = True"
| "provider_answer (Inl x) = False"

fun rejected :: "exn + 'a \<Rightarrow> bool" where
  "rejected (Inl (TwilioRestException e)) = True"
| "rejected r = False"


section \<open>Concrete surroundings for examples\<close>

text \<open>
  A clock, an enabled logger on an empty log directory, and a client on which every request
  is rejected by the provider; examples override the one call they are about.
\<close>

definition ex_env :: env where
  "ex_env = \<lparr>now_isoformat = ''2024-05-01T10:15:30.000123'', now_ymd = ''2024-05-01'',
             fmt_2f = (\<lambda>p. ''0.00'')\<rparr>"

definition ex_logger :: file_logger where
  "ex_logger = \<lparr>enabled = True, log_path = ''logs'', files = Map.empty, app_log = []\<rparr>"

definition rejecting_client :: client where
  "rejecting_client =
     \<lparr>available_local_list = (\<lambda>cc limit params. Inl (TwilioRestException ''HTTP 400 error'')),
      incoming_create = (\<lambda>kw. Inl (TwilioRestException ''not available'')),
      incoming_fetch = (\<lambda>sid. Inl (TwilioRestException ''HTTP 404 error'')),
      incoming_delete = (\<lambda>sid. Inl (TwilioRestException ''HTTP 404 error'')),
      incoming_update = (\<lambda>sid kw. Inl (TwilioRestException ''HTTP 404 error'')),
      calls_create = (\<lambda>kw. Inl (TwilioRestException ''HTTP 400 error'')),
      messages_create = (\<lambda>kw. Inl (TwilioRestException ''HTTP 400 error'')),
      calls_list = (\<lambda>limit. Inl (TwilioRestException ''HTTP 401 error'')),
      messages_list = (\<lambda>limit. Inl (TwilioRestException ''HTTP 401 error'')),
      accounts_fetch = (\<lambda>sid. Inl (TwilioRestException ''HTTP 401 error'')),
      requests_get = (\<lambda>url params auth. Inl (RequestException ''connection refused''))\<rparr>"

definition ex_gateway :: "client \<Rightarrow> twilio_gateway" where
  "ex_gateway c = \<lparr>account_sid = ''AC1'', auth_token = ''secret'', active_sid = ''AC1'',
                   client = c\<rparr>"

definition ex_number :: "string \<Rightarrow> available_number" where
  "ex_number pn =
     \<lparr>an_phone_number = JStr pn, an_friendly_name = JStr pn, an_locality = JNull,
      an_region = JStr ''CA'', an_postal_code = JNull, an_iso_country = JStr ''US'',
      an_capabilities = [(''voice'', JBool True), (''sms'', JBool True)]\<rparr>"

definition ex_search_client :: "available_number list \<Rightarrow> client" where
  "ex_search_client ns = rejecting_client\<lparr>available_local_list := (\<lambda>cc limit params. Inr ns)\<rparr>"




definition ex_call :: call_resource where
  "ex_call = \<lparr>call_sid = ''CA1'', call_status = ''queued'', call_direction = JStr ''outbound-api'',
               call_date_created = ''2024-05-01 10:15:30+00:00'', call_from = JStr ''+14155550100'',
               call_to = JStr ''+14155550199'', call_duration = JNull, call_price = JNull\<rparr>"

definition ex_call_client :: client where
  "ex_call_client =
     rejecting_client\<lparr>calls_create :=
       (\<lambda>kw. if kw = [(''to'', ''+14155550199''), (''from_'', ''+14155550100''),
                        (''url'', ''https://example.com/a.xml'')]
             then Inr ex_call
             else Inl (TwilioRestException ''HTTP 400 error''))\<rparr>"

definition ex_long_body :: string where
  "ex_long_body = replicate 101 (CHR ''a'')"

definition ex_message :: message_resource where
  "ex_message = \<lparr>msg_sid = ''SM1'', msg_status = ''queued'', msg_direction = JStr ''outbound-api'',
                  msg_date_created = ''2024-05-01 10:15:30+00:00'', msg_from = JStr ''+14155550100'',
                  msg_to = JStr ''+14155550199'', msg_body = JNull, msg_price = JNull\<rparr>"

definition ex_message_client :: client where
  "ex_message_client = rejecting_client\<lparr>messages_create := (\<lambda>kw. Inr ex_message)\<rparr>"




section \<open>What one call of the logger does\<close>

lemma read_logs_ok: "log_ok ev lg t \<Longrightarrow> read_logs (files lg (get_log_file_path ev lg t)) = Inr (json_log ev lg t)"
  by (simp add: log_ok_def json_log_def split: sum.splits)

lemma write_json_log_enabled:
  assumes "enabled lg" "log_ok ev lg t"
  shows "write_json_log ev lg t data = (Inr (), appended ev lg t (stamped ev data))"
  using assms by (simp add: write_json_log_def read_logs_ok appended_def stamped_def Let_def)

text \<open>
  Outside \<open>log_ok\<close>: when the day's file is not text, or decodes to something that is not a
  list, the write raises and the directory is left as it was.
\<close>

lemma write_json_log_raises:
  assumes "enabled lg" "\<not> log_ok ev lg t"
  shows "\<exists>x. write_json_log ev lg t data = (Inl x, lg)"
  using assms
  by (auto simp: write_json_log_def log_ok_def read_logs_def Let_def
           split: option.splits file_content.splits jval.splits)


lemma path_appended [simp]: "get_log_file_path ev (appended ev lg t r) t' = get_log_file_path ev lg t'"
  by (simp add: get_log_file_path_def appended_def)

lemma path_emit [simp]: "get_log_file_path ev (emit lg lv m) t' = get_log_file_path ev lg t'"
  by (simp add: get_log_file_path_def emit_def)

lemma json_log_appended_same: "json_log ev (appended ev lg t r) t = json_log ev lg t @ [r]"
  by (simp add: json_log_def appended_def read_logs_def get_log_file_path_def)



lemma json_log_emit_status [simp]: "json_log ev (emit_status lg m e) t = json_log ev lg t"
  by (simp add: json_log_def emit_status_def emit_def get_log_file_path_def split: option.splits)

lemma json_log_emit [simp]: "json_log ev (emit lg lv m) t = json_log ev lg t"
  by (simp add: json_log_def emit_def get_log_file_path_def)

lemma enabled_appended [simp]: "enabled (appended ev lg t r) = enabled lg"
  by (simp add: appended_def)

lemma app_log_appended [simp]: "app_log (appended ev lg t r) = app_log lg"
  by (simp add: appended_def)

lemma records_total_emit_status [simp]: "records_total ev (emit_status lg m e) = records_total ev lg"
  by (simp add: records_total_def)

lemma records_total_emit [simp]: "records_total ev (emit lg lv m) = records_total ev lg"
  by (simp add: records_total_def)


lemma log_call_enabled:
  assumes "enabled lg" "log_ok ev lg ''call''"
  shows "log_call ev lg f t st sid dur er
         = (Inr (), emit_status
              (appended ev lg ''call''
                 (stamped ev [(''from'', JStr f), (''to'', JStr t), (''status'', JStr st),
                    (''sid'', jopt sid),
                    (''duration'', (case dur of None \<Rightarrow> JNull | Some d \<Rightarrow> JInt d)),
                    (''error'', jopt er)]))
              (''Call from '' @ f @ '' to '' @ t @ '': '' @ st) er)"
  using assms by (simp add: log_call_def write_json_log_enabled)

lemma log_message_enabled:
  assumes "enabled lg" "log_ok ev lg ''message''"
  shows "log_message ev lg f t st body sid er
         = (Inr (), emit_status
              (appended ev lg ''message''
                 (stamped ev [(''from'', JStr f), (''to'', JStr t), (''status'', JStr st),
                    (''body'', jopt (case body of None \<Rightarrow> None
                        | Some b \<Rightarrow> if b \<noteq> [] \<and> length b > 100 then Some (take 97 b @ ''...'')
                               else Some b)),
                    (''sid'', jopt sid), (''error'', jopt er)]))
              (''Message from '' @ f @ '' to '' @ t @ '': '' @ st) er)"
  using assms by (simp add: log_message_def write_json_log_enabled)




lemma app_log_emit [simp]: "app_log (emit lg lv m) = app_log lg @ [(lv, m)]"
  by (simp add: emit_def)

lemma enabled_emit [simp]: "enabled (emit lg lv m) = enabled lg"
  by (simp add: emit_def)

lemma emit_status_enabled:
  "enabled lg \<Longrightarrow> emit_status lg m None = emit lg INFO m"
  "enabled lg \<Longrightarrow> e \<noteq> [] \<Longrightarrow> emit_status lg m (Some e) = emit lg ERROR (m @ '' - Error: '' @ e)"
  by (simp_all add: emit_status_def)

lemma ex_logger_ok [simp]: "log_ok ex_env ex_logger t" "json_log ex_env ex_logger t = []"
  "enabled ex_logger" "app_log ex_logger = []"
  by (simp_all add: log_ok_def json_log_def read_logs_def ex_logger_def)

section \<open>Records written by one invocation of the gateway\<close>











section \<open>Properties of the search\<close>

text \<open>
  C4 (as stated: the flag is true iff the number of results equals the limit). With the limit
  0 and one number returned by the provider, the flag is true although the count, 1, is not
  the limit.
\<close>

theorem search_has_more_counterexample:
  "search_phone_numbers (ex_gateway (ex_search_client [ex_number ''+14155550100'']))
     ex_env ex_logger ''US'' (Some ''415'') None False False 0
   = (Inr ([number_dict (ex_number ''+14155550100'')], True), ex_logger)
   \<and> int (length [number_dict (ex_number ''+14155550100'')]) \<noteq> 0"
  by (simp add: search_phone_numbers_def ex_gateway_def ex_search_client_def)

text \<open>
  C4 (amended): on a successful search the flag is true iff the number of results is at least
  the limit; so it is false whenever fewer results than the limit come back, and true when
  exactly as many come back. The logger is left alone.
\<close>

theorem search_has_more:
  assumes "available_local_list (client gw) country_code limit
             (search_params area_code contains sms_enabled voice_enabled) = Inr numbers"
  shows "search_phone_numbers gw ev lg country_code area_code contains sms_enabled
           voice_enabled limit
         = (Inr (map number_dict numbers, limit \<le> int (length (map number_dict numbers))), lg)"
  using assms by (simp add: search_phone_numbers_def)

theorem search_has_more_witness:
  "search_phone_numbers (ex_gateway (ex_search_client [ex_number ''+14155550100'', ex_number ''+14155550101'']))
     ex_env ex_logger ''US'' (Some ''415'') None False False 2
   = (Inr ([number_dict (ex_number ''+14155550100''), number_dict (ex_number ''+14155550101'')],
           True), ex_logger)
   \<and> search_phone_numbers (ex_gateway (ex_search_client [ex_number ''+14155550100'']))
       ex_env ex_logger ''US'' (Some ''415'') None False False 2
     = (Inr ([number_dict (ex_number ''+14155550100'')], False), ex_logger)"
  using search_has_more [of "ex_gateway (ex_search_client [ex_number ''+14155550100'', ex_number ''+14155550101''])"
          "''US''" 2 "Some ''415''" None False False
          "[ex_number ''+14155550100'', ex_number ''+14155550101'']" ex_env ex_logger]
        search_has_more [of "ex_gateway (ex_search_client [ex_number ''+14155550100''])"
          "''US''" 2 "Some ''415''" None False False
          "[ex_number ''+14155550100'']" ex_env ex_logger]
  by (simp add: ex_gateway_def ex_search_client_def)

section \<open>Properties of placing a call\<close>

text \<open>
  C10: when \<open>make_call\<close> is given a (non-empty) url together with inline twiml, the one
  request it makes of the provider is \<open>calls.create(to, from_, url)\<close>, with no twiml in it:
  what it logs and returns is what the provider answers to that request (the call created, or
  the provider's rejection; any other exception reaches the caller), and the call behaves
  exactly as if no twiml had been given. Nothing is rejected or reported on account of the
  twiml.
\<close>

theorem make_call_url_precedence:
  assumes "url \<noteq> []"
  shows "make_call_kwargs from_number to_number (Some url) (Some twiml)
           = [(''to'', to_number), (''from_'', from_number), (''url'', url)]
         \<and> map_of (make_call_kwargs from_number to_number (Some url) (Some twiml)) ''twiml'' = None
         \<and> make_call gw ev lg from_number to_number (Some url) (Some twiml)
           = make_call gw ev lg from_number to_number (Some url) None
         \<and> (calls_create (client gw)
               [(''to'', to_number), (''from_'', from_number), (''url'', url)] = Inr call \<longrightarrow>
             make_call gw ev lg from_number to_number (Some url) (Some twiml)
             = after_log
                 (log_call ev lg from_number to_number (call_status call) (Some (call_sid call))
                    None None)
                 [(''success'', JBool True), (''sid'', JStr (call_sid call)),
                  (''status'', JStr (call_status call)), (''from'', JStr from_number),
                  (''to'', JStr to_number), (''direction'', call_direction call),
                  (''date_created'', JStr (call_date_created call))])
         \<and> (calls_create (client gw)
               [(''to'', to_number), (''from_'', from_number), (''url'', url)]
             = Inl (TwilioRestException e) \<longrightarrow>
             make_call gw ev lg from_number to_number (Some url) (Some twiml)
             = after_log
                 (log_call ev lg from_number to_number ''failed'' None None
                    (Some (''Error making call: '' @ e)))
                 [(''success'', JBool False), (''error'', JStr (''Error making call: '' @ e)),
                  (''from'', JStr from_number), (''to'', JStr to_number)])
         \<and> (calls_create (client gw)
               [(''to'', to_number), (''from_'', from_number), (''url'', url)] = Inl x
             \<and> \<not> rejected (Inl x :: exn + call_resource) \<longrightarrow>
             make_call gw ev lg from_number to_number (Some url) (Some twiml) = (Inl x, lg))"
proof -
  have kw: "make_call_kwargs from_number to_number (Some url) (Some twiml)
            = [(''to'', to_number), (''from_'', from_number), (''url'', url)]"
    using assms by (simp add: make_call_kwargs_def)
  have same: "make_call gw ev lg from_number to_number (Some url) (Some twiml)
              = make_call gw ev lg from_number to_number (Some url) None"
    using assms by (simp add: make_call_kwargs_def make_call_def)
  have no_twiml: "map_of [(''to'', to_number), (''from_'', from_number), (''url'', url)] ''twiml''
                   = None"
    by simp
  have returned: "make_call gw ev lg from_number to_number (Some url) (Some twiml)
      = after_log
          (log_call ev lg from_number to_number (call_status call) (Some (call_sid call))
             None None)
          [(''success'', JBool True), (''sid'', JStr (call_sid call)),
           (''status'', JStr (call_status call)), (''from'', JStr from_number),
           (''to'', JStr to_number), (''direction'', call_direction call),
           (''date_created'', JStr (call_date_created call))]"
    if "calls_create (client gw)
          [(''to'', to_number), (''from_'', from_number), (''url'', url)] = Inr call"
    using that by (simp add: make_call_def kw)
  have refused: "make_call gw ev lg from_number to_number (Some url) (Some twiml)
      = after_log
          (log_call ev lg from_number to_number ''failed'' None None
             (Some (''Error making call: '' @ e)))
          [(''success'', JBool False), (''error'', JStr (''Error making call: '' @ e)),
           (''from'', JStr from_number), (''to'', JStr to_number)]"
    if "calls_create (client gw)
          [(''to'', to_number), (''from_'', from_number), (''url'', url)]
        = Inl (TwilioRestException e)"
    using that by (simp add: make_call_def kw Let_def)
  have other: "make_call gw ev lg from_number to_number (Some url) (Some twiml) = (Inl x, lg)"
    if "calls_create (client gw)
          [(''to'', to_number), (''from_'', from_number), (''url'', url)] = Inl x
        \<and> \<not> rejected (Inl x :: exn + call_resource)"
    using that by (cases x) (simp_all add: make_call_def kw)
  show ?thesis
    unfolding kw
    by (intro conjI impI) (rule refl no_twiml same returned refused other; assumption?)+
qed

theorem make_call_url_precedence_witness:
  "make_call_kwargs ''+14155550100'' ''+14155550199'' (Some ''https://example.com/a.xml'')
       (Some ''<Response><Say>Hi</Say></Response>'')
     = [(''to'', ''+14155550199''), (''from_'', ''+14155550100''),
        (''url'', ''https://example.com/a.xml'')]
   \<and> fst (make_call (ex_gateway ex_call_client) ex_env ex_logger ''+14155550100''
            ''+14155550199'' (Some ''https://example.com/a.xml'')
            (Some ''<Response><Say>Hi</Say></Response>''))
     = Inr [(''success'', JBool True), (''sid'', JStr ''CA1''), (''status'', JStr ''queued''),
            (''from'', JStr ''+14155550100''), (''to'', JStr ''+14155550199''),
            (''direction'', JStr ''outbound-api''),
            (''date_created'', JStr ''2024-05-01 10:15:30+00:00'')]"
proof -
  have url: "''https://example.com/a.xml'' \<noteq> []"
    by simp
  have answer: "calls_create (client (ex_gateway ex_call_client))
                  [(''to'', ''+14155550199''), (''from_'', ''+14155550100''),
                   (''url'', ''https://example.com/a.xml'')] = Inr ex_call"
    by (simp add: ex_gateway_def ex_call_client_def)
  note t = make_call_url_precedence [OF url, where from_number = "''+14155550100''"
             and to_number = "''+14155550199''"
             and twiml = "''<Response><Say>Hi</Say></Response>''"
             and gw = "ex_gateway ex_call_client" and ev = ex_env and lg = ex_logger
             and call = ex_call]
  from t have kw: "make_call_kwargs ''+14155550100'' ''+14155550199''
                     (Some ''https://example.com/a.xml'')
                     (Some ''<Response><Say>Hi</Say></Response>'')
                   = [(''to'', ''+14155550199''), (''from_'', ''+14155550100''),
                      (''url'', ''https://example.com/a.xml'')]"
    by (rule conjunct1)
  note sent = t [THEN conjunct2, THEN conjunct2, THEN conjunct2, THEN conjunct1]
  from mp [OF sent answer]
  have "fst (make_call (ex_gateway ex_call_client) ex_env ex_logger ''+14155550100''
                    ''+14155550199'' (Some ''https://example.com/a.xml'')
                    (Some ''<Response><Say>Hi</Say></Response>''))
             = Inr [(''success'', JBool True), (''sid'', JStr ''CA1''),
                    (''status'', JStr ''queued''), (''from'', JStr ''+14155550100''),
                    (''to'', JStr ''+14155550199''), (''direction'', JStr ''outbound-api''),
                    (''date_created'', JStr ''2024-05-01 10:15:30+00:00'')]"
    by (simp add: log_call_enabled ex_call_def)
  with kw show ?thesis
    by (rule conjI)
qed

section \<open>Failures of the search\<close>





section \<open>Properties of purchase and release\<close>





section \<open>Properties of the file logger\<close>




text \<open>
  C2 (as stated: the text line is truncated and the JSON record keeps the whole body). For a
  body of 101 characters the body field of the JSON record is the first 97 characters
  followed by three dots, which is not the body, and the text line carries no body at all.
\<close>

theorem send_message_truncation_counterexample:
  "length ex_long_body = 101
   \<and> json_log ex_env
         (snd (send_message (ex_gateway ex_message_client) ex_env ex_logger ''+14155550100''
                 ''+14155550199'' ex_long_body)) ''message''
       = [JObj [(''from'', JStr ''+14155550100''), (''to'', JStr ''+14155550199''),
                (''status'', JStr ''queued''),
                (''body'', JStr (replicate 97 (CHR ''a'') @ ''...'')),
                (''sid'', JStr ''SM1''), (''error'', JNull),
                (''timestamp'', JStr ''2024-05-01T10:15:30.000123'')]]
   \<and> replicate 97 (CHR ''a'') @ ''...'' \<noteq> ex_long_body
   \<and> app_log (snd (send_message (ex_gateway ex_message_client) ex_env ex_logger
                      ''+14155550100'' ''+14155550199'' ex_long_body))
       = [(INFO, ''Message from +14155550100 to +14155550199: queued'')]"
proof -
  have "length (replicate 97 (CHR ''a'') @ ''...'') \<noteq> length ex_long_body"
    by (simp add: ex_long_body_def)
  then have ne: "replicate 97 (CHR ''a'') @ ''...'' \<noteq> ex_long_body"
    by (rule contrapos_nn) simp
  have len: "length ex_long_body = 101"
    by (simp add: ex_long_body_def)
  have tk: "take 97 ex_long_body = replicate 97 (CHR ''a'')"
    by (simp add: ex_long_body_def)
  from len have nonempty: "ex_long_body \<noteq> []"
    by auto
  show ?thesis
    using ne len tk nonempty
    by (simp add: send_message_def ex_gateway_def ex_message_client_def rejecting_client_def
          ex_message_def log_message_enabled json_log_appended_same stamped_def
          emit_status_enabled)
       (simp add: ex_env_def)
qed

text \<open>
  C2 (amended): for a body of more than 100 characters, with logging enabled,
  \<open>send_message\<close> returns the whole body to its caller, while the one JSON record it appends
  to the message file holds the first 97 characters followed by \<open>...\<close> (100 characters) in
  its body field; the line in the text log is \<open>Message from F to T: status\<close> (with the
  error text after a failure) and holds no body.
\<close>

theorem send_message_long_body:
  assumes "100 < length body" and "enabled lg" and "log_ok ev lg ''message''"
    and "provider_answer (messages_create (client gw)
           [(''to'', to_number), (''from_'', from_number), (''body'', body)])"
  shows "(\<exists>result. fst (send_message gw ev lg from_number to_number body) = Inr result
                   \<and> map_of result ''body'' = Some (JStr body))
         \<and> length (json_log ev (snd (send_message gw ev lg from_number to_number body))
                     ''message'')
           = Suc (length (json_log ev lg ''message''))
         \<and> field ''body''
             (last (json_log ev (snd (send_message gw ev lg from_number to_number body))
                      ''message''))
           = Some (JStr (take 97 body @ ''...''))
         \<and> length (take 97 body @ ''...'') = 100
         \<and> app_log (snd (send_message gw ev lg from_number to_number body))
           = app_log lg
             @ [case messages_create (client gw)
                       [(''to'', to_number), (''from_'', from_number), (''body'', body)] of
                  Inr message \<Rightarrow>
                    (INFO, ''Message from '' @ from_number @ '' to '' @ to_number @ '': ''
                           @ msg_status message)
                | Inl x \<Rightarrow>
                    (ERROR, ''Message from '' @ from_number @ '' to '' @ to_number
                            @ '': failed - Error: Error sending message: '' @ str_exn x)]"
proof -
  from assms(1) have ne: "body \<noteq> []" by auto
  show ?thesis
  proof (cases "messages_create (client gw)
                  [(''to'', to_number), (''from_'', from_number), (''body'', body)]")
    case (Inr message)
    with assms ne show ?thesis
      by (simp add: send_message_def log_message_enabled json_log_appended_same stamped_def
            emit_status_enabled)
  next
    case (Inl x)
    with assms(4) obtain e where "x = TwilioRestException e"
      by (cases x) simp_all
    with Inl assms(1-3) ne show ?thesis
      by (simp add: send_message_def log_message_enabled json_log_appended_same stamped_def
            emit_status_enabled Let_def)
  qed
qed

theorem send_message_long_body_witness:
  "100 < length ex_long_body
   \<and> fst (send_message (ex_gateway ex_message_client) ex_env ex_logger ''+14155550100''
            ''+14155550199'' ex_long_body)
     = Inr [(''success'', JBool True), (''sid'', JStr ''SM1''), (''status'', JStr ''queued''),
            (''from'', JStr ''+14155550100''), (''to'', JStr ''+14155550199''),
            (''body'', JStr ex_long_body),
            (''date_created'', JStr ''2024-05-01 10:15:30+00:00'')]
   \<and> field ''body''
       (last (json_log ex_env
                (snd (send_message (ex_gateway ex_message_client) ex_env ex_logger
                        ''+14155550100'' ''+14155550199'' ex_long_body)) ''message''))
     = Some (JStr (replicate 97 (CHR ''a'') @ ''...''))"
  using send_message_long_body [of ex_long_body ex_logger ex_env
          "ex_gateway ex_message_client" "''+14155550199''" "''+14155550100''"]
  by (simp add: ex_gateway_def ex_message_client_def ex_long_body_def)
     (simp add: send_message_def ex_gateway_def ex_message_client_def ex_message_def
        log_message_enabled ex_long_body_def)

section \<open>Properties of the account information\<close>




section \<open>One record per invocation\<close>




end
